theory Spec2Isabelle
  imports Complex_Main
begin

section \<open>Python values, exceptions and log records\<close>

text \<open>
  The values \<open>json.load\<close> produces: \<open>None\<close>, booleans, integers, strings, lists and
  dictionaries. A dictionary is kept as an association list read with \<open>map_of\<close>.
  Strings are ASCII; numbers with a fractional part do not occur in the configuration
  of this program and are left out.
\<close>

datatype json =
    JNull
  | JBool bool
  | JInt int
  | JString string
  | JArray "json list"
  | JObject "(string \<times> json) list"

datatype error =
    is_KeyError: KeyError string
  | TypeError
  | AttributeError string
  | FileNotFoundError string
  | IsADirectoryError string
  | JSONDecodeError
  | ExtensionAlreadyLoaded string
  | ExtensionNotFound string
  | ExtensionFailed string
  | NoEntryPointError string
  | ExtensionNotLoaded string
  | PlatformError string
  | StorageError string

datatype level = TRACE | INFO | WARNING | ERROR | CRITICAL

type_synonym log_record = "level \<times> string"

type_synonym environment = "string \<rightharpoonup> string"

definition and_then :: "error + 'a \<Rightarrow> ('a \<Rightarrow> error + 'b) \<Rightarrow> error + 'b" where
  "and_then r f = (case r of Inl e \<Rightarrow> Inl e | Inr v \<Rightarrow> f v)"

text \<open>\<open>obj[key]\<close> with a string key: a dictionary raises \<open>KeyError(key)\<close> for a missing
  key, every other value raises \<open>TypeError\<close>.\<close>

fun subscript :: "json \<Rightarrow> string \<Rightarrow> error + json" where
  "subscript (JObject kvs) k = (case map_of kvs k of None \<Rightarrow> Inl (KeyError k) | Some v \<Rightarrow> Inr v)"
| "subscript _ k = Inl TypeError"

text \<open>\<open>os.environ[key]\<close>: the values of the environment are strings.\<close>

definition environ :: "environment \<Rightarrow> string \<Rightarrow> error + string" where
  "environ env k = (case env k of None \<Rightarrow> Inl (KeyError k) | Some v \<Rightarrow> Inr v)"

subsection \<open>String operations\<close>

definition ascii_lowercase :: string where
  "ascii_lowercase = ''abcdefghijklmnopqrstuvwxyz''"

definition ascii_uppercase :: string where
  "ascii_uppercase = ''ABCDEFGHIJKLMNOPQRSTUVWXYZ''"

definition lower_char :: "char \<Rightarrow> char" where
  "lower_char c = (case map_of (zip ascii_uppercase ascii_lowercase) c of Some l \<Rightarrow> l | None \<Rightarrow> c)"

definition upper_char :: "char \<Rightarrow> char" where
  "upper_char c = (case map_of (zip ascii_lowercase ascii_uppercase) c of Some u \<Rightarrow> u | None \<Rightarrow> c)"

text \<open>\<open>str.lower\<close> and \<open>str.upper\<close> on ASCII strings.\<close>

definition lower :: "string \<Rightarrow> string" where
  "lower s = map lower_char s"

definition upper :: "string \<Rightarrow> string" where
  "upper s = map upper_char s"

text \<open>\<open>sep.join(parts)\<close>\<close>

fun join :: "string \<Rightarrow> string list \<Rightarrow> string" where
  "join sep [] = []"
| "join sep [x] = x"
| "join sep (x # y # ys) = x @ sep @ join sep (y # ys)"

definition startswith :: "string \<Rightarrow> string \<Rightarrow> bool" where
  "startswith s p = (take (length p) s = p)"

definition endswith :: "string \<Rightarrow> string \<Rightarrow> bool" where
  "endswith s p = (length p \<le> length s \<and> drop (length s - length p) s = p)"

text \<open>\<open>sub in s\<close> on strings.\<close>

fun contains :: "string \<Rightarrow> string \<Rightarrow> bool" where
  "contains [] sub = (sub = [])"
| "contains (c # cs) sub = (startswith (c # cs) sub \<or> contains cs sub)"

section \<open>constants.py: configuration resolution\<close>

subsection \<open>Loading the configuration document\<close>

text \<open>
  What a path of the working directory holds. \<open>json.load\<close> is a library function: a
  regular file carries the document it parses to, or \<open>None\<close> when it is not valid JSON.
\<close>

datatype fs_entry = Directory | RegularFile "json option"

type_synonym filesystem = "string \<rightharpoonup> fs_entry"

text \<open>\<open>with open(path, "r") as f: json.load(f)\<close>\<close>

definition open_and_load :: "filesystem \<Rightarrow> string \<Rightarrow> error + json" where
  "open_and_load fs path =
     (case fs path of
        None \<Rightarrow> Inl (FileNotFoundError path)
      | Some Directory \<Rightarrow> Inl (IsADirectoryError path)
      | Some (RegularFile None) \<Rightarrow> Inl JSONDecodeError
      | Some (RegularFile (Some doc)) \<Rightarrow> Inr doc)"

text \<open>Lines 8 to 14: the value of \<open>_CONFIG_JSON\<close>, with the records logged on the way.\<close>

definition load_config :: "filesystem \<Rightarrow> log_record list \<times> (error + json)" where
  "load_config fs =
     (if fs ''config.json'' \<noteq> None
      then ([(INFO, ''Found `config.json`, loading constants from it.'')],
            open_and_load fs ''config.json'')
      else ([], open_and_load fs ''config-default.json''))"

subsection \<open>The metaclass JSONGetter\<close>

text \<open>
  A constants class: its \<open>section\<close>, its \<open>subsection\<close> (\<open>None\<close> is the metaclass
  default), and the names of the further attributes that ordinary attribute lookup
  finds on the class, its bases and its metaclass (\<open>__name__\<close>, \<open>__doc__\<close>,
  \<open>__annotations__\<close>, \<open>mro\<close>, ...). The annotated keys of a class body have no value
  and are not attributes.
\<close>

record constants_class =
  cls_section :: string
  cls_subsection :: "string option"
  other_attributes :: "string list"

text \<open>Both branches of \<open>__getattr__\<close> end in the same test of the stored item.\<close>

definition item_or_environ :: "environment \<Rightarrow> string \<Rightarrow> json \<Rightarrow> error + json" where
  "item_or_environ env name item =
     (if item = JString ''!ENV''
      then (case environ env (upper name) of Inl e \<Rightarrow> Inl e | Inr v \<Rightarrow> Inr (JString v))
      else Inr item)"

text \<open>The body of the \<open>try\<close> statement, lines 54 to 65.\<close>

definition try_body :: "json \<Rightarrow> environment \<Rightarrow> constants_class \<Rightarrow> string \<Rightarrow> error + json" where
  "try_body doc env cls name =
     (case cls_subsection cls of
        Some sub \<Rightarrow>
          and_then (subscript doc (cls_section cls)) (\<lambda>s.
          and_then (subscript s sub) (\<lambda>ss.
          and_then (subscript ss name) (item_or_environ env name)))
      | None \<Rightarrow>
          and_then (subscript doc (cls_section cls)) (\<lambda>s.
          and_then (subscript s name) (item_or_environ env name)))"

definition dotted_path :: "constants_class \<Rightarrow> string \<Rightarrow> string" where
  "dotted_path cls name =
     join ''.'' (case cls_subsection cls of
                   Some sub \<Rightarrow> [cls_section cls, sub, name]
                 | None \<Rightarrow> [cls_section cls, name])"

definition not_found_message :: "string \<Rightarrow> string" where
  "not_found_message path =
     ''Tried accessing configuration variable at `'' @ path @ ''`, but it could not be found.''"

text \<open>
  \<open>JSONGetter.__getattr__\<close>: the handler catches \<open>KeyError\<close> only, logs the dotted path
  at level critical and raises the caught exception again; every other exception
  leaves the function unlogged.
\<close>

definition JSONGetter_getattr ::
  "json \<Rightarrow> environment \<Rightarrow> constants_class \<Rightarrow> string \<Rightarrow> log_record list \<times> (error + json)" where
  "JSONGetter_getattr doc env cls name0 =
     (let name = lower name0 in
      case try_body doc env cls name of
        Inl e \<Rightarrow>
          if is_KeyError e
          then ([(CRITICAL, not_found_message (dotted_path cls name))], Inl e)
          else ([], Inl e)
      | Inr item \<Rightarrow> ([], Inr item))"

definition JSONGetter_getitem ::
  "json \<Rightarrow> environment \<Rightarrow> constants_class \<Rightarrow> string \<Rightarrow> log_record list \<times> (error + json)" where
  "JSONGetter_getitem doc env cls name = JSONGetter_getattr doc env cls name"

subsection \<open>Attribute access on a constants class\<close>

text \<open>
  What \<open>Cls.name\<close> evaluates to: a configuration value, or an object of the interpreter
  (a method, a mapping of annotations) that the model keeps by name only.
\<close>

datatype pyobject = Value json | Opaque string

text \<open>
  Ordinary lookup comes first: \<open>section\<close> is set in every class body, \<open>subsection\<close> in
  the class body or by the metaclass default \<open>None\<close>.
\<close>

definition ordinary_lookup :: "constants_class \<Rightarrow> string \<Rightarrow> pyobject option" where
  "ordinary_lookup cls name =
     (if name = ''section'' then Some (Value (JString (cls_section cls)))
      else if name = ''subsection''
        then Some (Value (case cls_subsection cls of None \<Rightarrow> JNull | Some sub \<Rightarrow> JString sub))
      else if name \<in> set (other_attributes cls) then Some (Opaque name)
      else None)"

definition as_object :: "log_record list \<times> (error + json) \<Rightarrow> log_record list \<times> (error + pyobject)" where
  "as_object r = (fst r, case snd r of Inl e \<Rightarrow> Inl e | Inr v \<Rightarrow> Inr (Value v))"

text \<open>\<open>Cls.name\<close>: the hook \<open>__getattr__\<close> runs only when ordinary lookup finds nothing.\<close>

definition attribute_access ::
  "json \<Rightarrow> environment \<Rightarrow> constants_class \<Rightarrow> string \<Rightarrow> log_record list \<times> (error + pyobject)" where
  "attribute_access doc env cls name =
     (case ordinary_lookup cls name of
        Some obj \<Rightarrow> ([], Inr obj)
      | None \<Rightarrow> as_object (JSONGetter_getattr doc env cls name))"

text \<open>\<open>Cls[name]\<close>: the metaclass's \<open>__getitem__\<close>.\<close>

definition item_access ::
  "json \<Rightarrow> environment \<Rightarrow> constants_class \<Rightarrow> string \<Rightarrow> log_record list \<times> (error + pyobject)" where
  "item_access doc env cls name = as_object (JSONGetter_getitem doc env cls name)"

subsection \<open>The module's constants\<close>

text \<open>Line 87. \<open>os.environ["DEBUG"]\<close> is a string when it returns, and never \<open>None\<close>.\<close>

definition DEBUG_MODE :: "environment \<Rightarrow> error + bool" where
  "DEBUG_MODE env =
     (case environ env ''DEBUG'' of
        Inl e \<Rightarrow> Inl e
      | Inr v \<Rightarrow> Inr (if Some v \<noteq> None then True else False))"

text \<open>
  The names, other than \<open>section\<close> and \<open>subsection\<close>, that ordinary lookup finds on a
  class of this module under CPython 3.11: those of the class body, of \<open>object\<close>, of
  \<open>type\<close> and of the metaclass. \<open>__abstractmethods__\<close> is listed by \<open>dir\<close> but raises
  \<open>AttributeError\<close>, so it is not among them.
\<close>

definition interpreter_attributes :: "string list" where
  "interpreter_attributes =
     [''__annotations__'', ''__base__'', ''__bases__'', ''__basicsize__'', ''__call__'',
      ''__class__'', ''__delattr__'', ''__dict__'', ''__dictoffset__'', ''__dir__'',
      ''__doc__'', ''__eq__'', ''__flags__'', ''__format__'', ''__ge__'', ''__getattr__'',
      ''__getattribute__'', ''__getitem__'', ''__getstate__'', ''__gt__'', ''__hash__'',
      ''__init__'', ''__init_subclass__'', ''__instancecheck__'', ''__itemsize__'',
      ''__iter__'', ''__le__'', ''__lt__'', ''__module__'', ''__mro__'', ''__name__'',
      ''__ne__'', ''__new__'', ''__or__'', ''__prepare__'', ''__qualname__'', ''__reduce__'',
      ''__reduce_ex__'', ''__repr__'', ''__ror__'', ''__setattr__'', ''__sizeof__'',
      ''__str__'', ''__subclasscheck__'', ''__subclasses__'', ''__subclasshook__'',
      ''__text_signature__'', ''__weakref__'', ''__weakrefoffset__'', ''mro'']"

definition BotConsts :: constants_class where
  "BotConsts = \<lparr>cls_section = ''bot'', cls_subsection = None,
                other_attributes = interpreter_attributes\<rparr>"

definition Guild :: constants_class where
  "Guild = \<lparr>cls_section = ''guild'', cls_subsection = None,
            other_attributes = interpreter_attributes\<rparr>"

definition StaffRoles :: constants_class where
  "StaffRoles = \<lparr>cls_section = ''guild'', cls_subsection = Some ''staff_roles'',
                 other_attributes = interpreter_attributes\<rparr>"

definition Channels :: constants_class where
  "Channels = \<lparr>cls_section = ''guild'', cls_subsection = Some ''channels'',
               other_attributes = interpreter_attributes\<rparr>"

definition Emoji :: constants_class where
  "Emoji = \<lparr>cls_section = ''style'', cls_subsection = Some ''emoji'',
            other_attributes = interpreter_attributes\<rparr>"

definition ClassRoles :: constants_class where
  "ClassRoles = \<lparr>cls_section = ''guild'', cls_subsection = Some ''class_roles'',
                 other_attributes = interpreter_attributes\<rparr>"

definition Categories :: constants_class where
  "Categories = \<lparr>cls_section = ''guild'', cls_subsection = Some ''categories'',
                 other_attributes = interpreter_attributes\<rparr>"

subsection \<open>Importing the module\<close>

text \<open>
  A list display of attribute accesses, as in lines 165 to 173: the accesses run from
  left to right and the first one that raises ends the evaluation. The keys are
  annotated only, so each access reaches \<open>__getattr__\<close>.
\<close>

fun resolve_all ::
  "json \<Rightarrow> environment \<Rightarrow> (constants_class \<times> string) list \<Rightarrow> log_record list \<times> (error + json list)" where
  "resolve_all doc env [] = ([], Inr [])"
| "resolve_all doc env (k # ks) =
     (let r = JSONGetter_getattr doc env (fst k) (snd k) in
      case snd r of
        Inl e \<Rightarrow> (fst r, Inl e)
      | Inr v \<Rightarrow>
          (let rs = resolve_all doc env ks in
           (fst r @ fst rs, case snd rs of Inl e \<Rightarrow> Inl e | Inr vs \<Rightarrow> Inr (v # vs))))"

text \<open>The names the module binds.\<close>

record constants_module =
  CONFIG_JSON :: json
  debug_mode :: bool
  BOT_ADMINS :: "json list"
  MOD_ROLES :: "json list"
  CLASS_ROLES :: "json list"

text \<open>The statements of lines 87 to 173, run on the loaded document: \<open>DEBUG_MODE\<close>,
  the class definitions (which evaluate nothing) and the three groups.\<close>

definition module_statements ::
  "json \<Rightarrow> environment \<Rightarrow> log_record list \<times> (error + constants_module)" where
  "module_statements doc env =
     (case DEBUG_MODE env of
        Inl e \<Rightarrow> ([], Inl e)
      | Inr dbg \<Rightarrow>
          (let a = resolve_all doc env
                     [(StaffRoles, ''bot_team_role''), (StaffRoles, ''admin_role'')] in
           case snd a of
             Inl e \<Rightarrow> (fst a, Inl e)
           | Inr admins \<Rightarrow>
               (let m = resolve_all doc env
                          [(StaffRoles, ''mod_role''), (StaffRoles, ''admin_role'')] in
                case snd m of
                  Inl e \<Rightarrow> (fst a @ fst m, Inl e)
                | Inr mods \<Rightarrow>
                    (let c = resolve_all doc env
                               [(ClassRoles, ''freshmen''), (ClassRoles, ''sophomores''),
                                (ClassRoles, ''juniors''), (ClassRoles, ''seniors''),
                                (ClassRoles, ''alumni'')] in
                     case snd c of
                       Inl e \<Rightarrow> (fst a @ fst m @ fst c, Inl e)
                     | Inr classes \<Rightarrow>
                         (fst a @ fst m @ fst c,
                          Inr \<lparr>CONFIG_JSON = doc, debug_mode = dbg, BOT_ADMINS = admins,
                               MOD_ROLES = mods, CLASS_ROLES = classes\<rparr>)))))"

text \<open>\<open>import roycemorebot.constants\<close> in a process with working directory \<open>fs\<close> and
  environment \<open>env\<close>: lines 8 to 14, then the rest of the module.\<close>

definition import_constants ::
  "filesystem \<Rightarrow> environment \<Rightarrow> log_record list \<times> (error + constants_module)" where
  "import_constants fs env =
     (let l = load_config fs in
      case snd l of
        Inl e \<Rightarrow> (fst l, Inl e)
      | Inr doc \<Rightarrow> (let m = module_statements doc env in (fst l @ fst m, snd m)))"

text \<open>
  What resolving a key gives in such a process: nothing can be resolved unless the
  import has succeeded, and \<open>__getattr__\<close> then reads the document the import bound.
\<close>

definition resolve_from_files ::
  "filesystem \<Rightarrow> environment \<Rightarrow> constants_class \<Rightarrow> string \<Rightarrow> error + json" where
  "resolve_from_files fs env cls name =
     (case snd (import_constants fs env) of
        Inl e \<Rightarrow> Inl e
      | Inr m \<Rightarrow> snd (JSONGetter_getattr (CONFIG_JSON m) env cls name))"

subsection \<open>The specification's reading of a configuration path\<close>

text \<open>The path \<open>(section, subsection?, key)\<close> of a resolution request.\<close>

definition config_path :: "constants_class \<Rightarrow> string \<Rightarrow> string list" where
  "config_path cls key =
     (case cls_subsection cls of
        Some sub \<Rightarrow> [cls_section cls, sub, key]
      | None \<Rightarrow> [cls_section cls, key])"

text \<open>The specification's \<open>doc[section][subsection?][key]\<close>: the value stored at a path,
  \<open>None\<close> when the path is absent from the document.\<close>

fun path_value :: "json \<Rightarrow> string list \<Rightarrow> json option" where
  "path_value j [] = Some j"
| "path_value (JObject kvs) (k # ks) =
     (case map_of kvs k of None \<Rightarrow> None | Some v \<Rightarrow> path_value v ks)"
| "path_value _ (k # ks) = None"

text \<open>The first component of a path that is not a key of the dictionary reached so far;
  \<open>None\<close> when the path is present or runs into a value that is not a dictionary.\<close>

fun missing_key :: "json \<Rightarrow> string list \<Rightarrow> string option" where
  "missing_key (JObject kvs) (k # ks) =
     (case map_of kvs k of None \<Rightarrow> Some k | Some v \<Rightarrow> missing_key v ks)"
| "missing_key _ _ = None"

section \<open>__main__.py: the bot, its start and its commands\<close>

subsection \<open>The state of the process\<close>

text \<open>
  What the statements of the module act on: the extensions and cogs registered with the
  bot, the log, the messages sent to the invoking channel, the two resources that
  \<open>close\<close> releases, and the token \<open>bot.run\<close> was called with.
\<close>

record bot_state =
  extensions :: "string list"
  cogs :: "(string \<times> string) list"
  logged :: "log_record list"
  sent :: "string list"
  platform_closed :: bool
  storage_closed :: bool
  asyncgens_shut_down :: bool
  slept :: nat
  run_token :: "json option"

definition initial_state :: bot_state where
  "initial_state =
     \<lparr>extensions = [], cogs = [], logged = [], sent = [], platform_closed = False,
      storage_closed = False, asyncgens_shut_down = False, slept = 0, run_token = None\<rparr>"

definition log_message :: "level \<Rightarrow> string \<Rightarrow> bot_state \<Rightarrow> bot_state" where
  "log_message lvl msg st = st\<lparr>logged := logged st @ [(lvl, msg)]\<rparr>"

text \<open>\<open>await ctx.send(msg)\<close>\<close>

definition ctx_send :: "string \<Rightarrow> bot_state \<Rightarrow> bot_state" where
  "ctx_send msg st = st\<lparr>sent := sent st @ [msg]\<rparr>"

subsection \<open>The class Bot\<close>

text \<open>The framework keeps its cogs in a dictionary from the cog's name: storing under a
  name that is present replaces the entry.\<close>

fun store :: "string \<Rightarrow> string \<Rightarrow> (string \<times> string) list \<Rightarrow> (string \<times> string) list" where
  "store k v [] = [(k, v)]"
| "store k v (p # ps) = (if fst p = k then (k, v) # ps else p # store k v ps)"

text \<open>\<open>Bot.add_cog\<close> and \<open>Bot.remove_cog\<close> (lines 58 to 66); a cog is kept with the
  extension that defines it.\<close>

definition add_cog :: "string \<Rightarrow> string \<Rightarrow> bot_state \<Rightarrow> bot_state" where
  "add_cog ext cog st =
     log_message INFO (''Cog loaded: '' @ cog) (st\<lparr>cogs := store cog ext (cogs st)\<rparr>)"

definition remove_cog :: "string \<Rightarrow> bot_state \<Rightarrow> bot_state" where
  "remove_cog name st =
     log_message INFO (''Cog unloaded: '' @ name)
       (st\<lparr>cogs := filter (\<lambda>c. fst c \<noteq> name) (cogs st)\<rparr>)"

text \<open>
  \<open>Bot.close\<close> (lines 68 to 78). \<open>super().close()\<close> and
  \<open>Tortoise.close_connections()\<close> are library calls: each either returns, and the
  resource is closed, or raises the given error.
\<close>

definition Bot_close :: "error option \<Rightarrow> error option \<Rightarrow> bot_state \<Rightarrow> bot_state \<times> (error + unit)" where
  "Bot_close platform_failure storage_failure st =
     (case platform_failure of
        Some e \<Rightarrow> (st, Inl e)
      | None \<Rightarrow>
          let st1 = st\<lparr>platform_closed := True\<rparr> in
          (case storage_failure of
             Some e \<Rightarrow> (st1, Inl e)
           | None \<Rightarrow>
               let st2 = st1\<lparr>storage_closed := True\<rparr>;
                   st3 = log_message WARNING ''Please wait, just cleaning up a bit more'' st2;
                   st4 = st3\<lparr>asyncgens_shut_down := True\<rparr>
               in (st4\<lparr>slept := slept st4 + 2\<rparr>, Inr ())))"

subsection \<open>The extension registry of the command framework\<close>

text \<open>
  \<open>load_extension\<close> and \<open>reload_extension\<close> belong to the command framework, not to
  this program; they are modelled after the framework's documented behaviour. An
  importable module either has a \<open>setup\<close> function that adds the given cogs, or fails
  in one of three ways: its import raises, it has no \<open>setup\<close>, or \<open>setup\<close> raises
  before it adds a cog. A failed load leaves the registry as it was.

  Both functions resolve the name first (the framework's \<open>_resolve_name\<close>, which calls
  \<open>importlib.util.resolve_name(name, None)\<close>): a relative name, one that starts with a
  dot, cannot be resolved without a package and is reported as not found.
\<close>

datatype module_behaviour = SetupAdds "string list" | ImportRaises | NoSetup | SetupRaises

type_synonym modules = "string \<rightharpoonup> module_behaviour"

definition resolve_name :: "string \<Rightarrow> error + string" where
  "resolve_name name = (if startswith name ''.'' then Inl (ExtensionNotFound name) else Inr name)"

definition load_extension :: "modules \<Rightarrow> string \<Rightarrow> bot_state \<Rightarrow> bot_state \<times> (error + unit)" where
  "load_extension mods name st =
     (case resolve_name name of
        Inl e \<Rightarrow> (st, Inl e)
      | Inr name \<Rightarrow>
      if name \<in> set (extensions st) then (st, Inl (ExtensionAlreadyLoaded name))
      else case mods name of
        None \<Rightarrow> (st, Inl (ExtensionNotFound name))
      | Some ImportRaises \<Rightarrow> (st, Inl (ExtensionFailed name))
      | Some NoSetup \<Rightarrow> (st, Inl (NoEntryPointError name))
      | Some SetupRaises \<Rightarrow> (st, Inl (ExtensionFailed name))
      | Some (SetupAdds cs) \<Rightarrow>
          (let st1 = fold (add_cog name) cs st
           in (st1\<lparr>extensions := extensions st1 @ [name]\<rparr>, Inr ())))"

definition reload_extension :: "modules \<Rightarrow> string \<Rightarrow> bot_state \<Rightarrow> bot_state \<times> (error + unit)" where
  "reload_extension mods name st =
     (case resolve_name name of
        Inl e \<Rightarrow> (st, Inl e)
      | Inr name \<Rightarrow>
      if name \<notin> set (extensions st) then (st, Inl (ExtensionNotLoaded name))
      else
        let old = map fst (filter (\<lambda>c. snd c = name) (cogs st));
            st1 = fold remove_cog old st;
            st2 = st1\<lparr>extensions := removeAll name (extensions st1)\<rparr>
        in case load_extension mods name st2 of
             (st3, Inr u) \<Rightarrow> (st3, Inr u)
           | (st3, Inl e) \<Rightarrow>
               (let st4 = fold (add_cog name) old st3
                in (st4\<lparr>extensions := extensions st4 @ [name]\<rparr>, Inl e)))"

subsection \<open>Loading the cogs and running the bot\<close>

definition is_extension_file :: "string \<Rightarrow> bool" where
  "is_extension_file file = (endswith file ''.py'' \<and> \<not> startswith file ''_'')"

text \<open>\<open>f"roycemorebot.exts.{file[:-3]}"\<close>\<close>

definition extension_name :: "string \<Rightarrow> string" where
  "extension_name file = ''roycemorebot.exts.'' @ take (length file - 3) file"

text \<open>The loop of lines 114 to 116 over the directory listing; no statement around
  \<open>bot.load_extension\<close> catches what it raises.\<close>

fun load_cogs :: "modules \<Rightarrow> string list \<Rightarrow> bot_state \<Rightarrow> bot_state \<times> (error + unit)" where
  "load_cogs mods [] st = (st, Inr ())"
| "load_cogs mods (file # files) st =
     (if is_extension_file file
      then (case load_extension mods (extension_name file) st of
              (st1, Inl e) \<Rightarrow> (st1, Inl e)
            | (st1, Inr u) \<Rightarrow> load_cogs mods files st1)
      else load_cogs mods files st)"

definition py_bool :: "bool \<Rightarrow> string" where
  "py_bool b = (if b then ''True'' else ''False'')"

text \<open>\<open>bot.run(token)\<close>: the call that opens the connection to the platform.\<close>

definition bot_run :: "json \<Rightarrow> bot_state \<Rightarrow> bot_state" where
  "bot_run token st = st\<lparr>run_token := Some token\<rparr>"

text \<open>
  The module-level statements from line 114 to the end, which run once the imports and
  the construction of the bot have succeeded: the loop over the listing of the
  extension directory, the two debug records, and \<open>bot.run(BotConsts.bot_token)\<close>.
  \<open>bot_token\<close> is annotated only, so the attribute access reaches \<open>__getattr__\<close>.

  \<open>log.trace\<close> is not a method of the standard library's loggers and no source file
  listed here installs it: \<open>trace_defined\<close> says whether the rest of the package has.
  Where it has not, the attribute lookup \<open>log.trace\<close> raises before the argument of
  the call is evaluated.
\<close>

definition main_script ::
  "json \<Rightarrow> environment \<Rightarrow> modules \<Rightarrow> string list \<Rightarrow> bool \<Rightarrow> bool \<Rightarrow> bot_state
     \<Rightarrow> bot_state \<times> (error + unit)" where
  "main_script doc env mods listing dbg trace_defined st =
     (case load_cogs mods listing st of
        (st1, Inl e) \<Rightarrow> (st1, Inl e)
      | (st1, Inr u) \<Rightarrow>
          let st2 = log_message INFO (''Debug: '' @ py_bool dbg) st1 in
          if \<not> trace_defined then (st2, Inl (AttributeError ''trace''))
          else
          (case environ env ''DEBUG'' of
             Inl e \<Rightarrow> (st2, Inl e)
           | Inr v \<Rightarrow>
               let st3 = log_message TRACE (''Debug env variable: '' @ v) st2;
                   r = JSONGetter_getattr doc env BotConsts ''bot_token'';
                   st4 = st3\<lparr>logged := logged st3 @ fst r\<rparr>
               in (case snd r of
                     Inl e \<Rightarrow> (st4, Inl e)
                   | Inr token \<Rightarrow> (bot_run token st4, Inr ()))))"

subsection \<open>The command reload\<close>

definition qualified_name :: "string \<Rightarrow> string" where
  "qualified_name cog = (if contains cog ''roycemorebot'' then cog else ''roycemorebot.exts.'' @ cog)"

definition reload :: "modules \<Rightarrow> string \<Rightarrow> bot_state \<Rightarrow> bot_state \<times> (error + unit)" where
  "reload mods cog st =
     (case reload_extension mods (qualified_name cog) st of
        (st1, Inl e) \<Rightarrow>
          if is_ExtensionNotLoaded e
          then (ctx_send (''Could not find the extension `'' @ cog @ ''`!'') st1, Inr ())
          else (st1, Inl e)
      | (st1, Inr u) \<Rightarrow> (ctx_send (''Cog `'' @ cog @ ''` successfully reloaded!'') st1, Inr ()))"

subsection \<open>The command git-pull\<close>

text \<open>
  How the external command behaves: it cannot be started (the text is that of the
  \<open>OSError\<close>), or it runs for a duration in seconds and ends with an exit status, its
  standard output and its standard error (what was captured of them, if it is cut off).
  A command killed by a signal is left out.
\<close>

datatype external_command = CannotStart string | Runs real nat string string

text \<open>
  The \<open>stderr\<close> attribute of the exceptions of \<open>subprocess\<close>: \<open>None\<close>, the undecoded
  bytes that \<open>TimeoutExpired\<close> carries on POSIX even when an encoding is given, or the
  decoded text of \<open>CalledProcessError\<close>.
\<close>

datatype captured = NoOutput | Bytes string | Text string

datatype subprocess_error =
    TimeoutExpired nat captured
  | CalledProcessError nat captured
  | OSError string

text \<open>\<open>subprocess.run(["git", "pull"], capture_output=True, check=True, timeout=t)\<close>\<close>

definition subprocess_run :: "nat \<Rightarrow> external_command \<Rightarrow> subprocess_error + string" where
  "subprocess_run t cmd =
     (case cmd of
        CannotStart msg \<Rightarrow> Inl (OSError msg)
      | Runs duration status out err \<Rightarrow>
          if duration > real t then Inl (TimeoutExpired t (if err = [] then NoOutput else Bytes err))
          else if status \<noteq> 0 then Inl (CalledProcessError status (Text err))
          else Inr out)"

definition digit_char :: "nat \<Rightarrow> char" where
  "digit_char d = ''0123456789'' ! d"

fun show_nat :: "nat \<Rightarrow> string" where
  "show_nat n = (if n < 10 then [digit_char n] else show_nat (n div 10) @ [digit_char (n mod 10)])"

definition quote :: string where
  "quote = [CHR 0x27]"

definition newline :: string where
  "newline = [CHR 0x0A]"

text \<open>\<open>str(["git", "pull"])\<close>\<close>

definition cmd_str :: string where
  "cmd_str = ''['' @ quote @ ''git'' @ quote @ '', '' @ quote @ ''pull'' @ quote @ '']''"

text \<open>\<open>str(e)\<close>\<close>

fun exception_str :: "subprocess_error \<Rightarrow> string" where
  "exception_str (TimeoutExpired t err) =
     ''Command '' @ quote @ cmd_str @ quote @ '' timed out after '' @ show_nat t @ '' seconds''"
| "exception_str (CalledProcessError status err) =
     ''Command '' @ quote @ cmd_str @ quote @ '' returned non-zero exit status '' @ show_nat status @ ''.''"
| "exception_str (OSError msg) = msg"

text \<open>\<open>str(e)\<close> of the \<open>TimeoutExpired\<close> that \<open>subprocess.run\<close> raises for
  \<open>["git", "pull"]\<close> and \<open>timeout=60\<close>.\<close>

definition timeout_text :: string where
  "timeout_text = ''Command '['git', 'pull']' timed out after 60 seconds''"

text \<open>\<open>e.stderr\<close>: an \<open>OSError\<close> has no such attribute.\<close>

fun stderr_of :: "subprocess_error \<Rightarrow> error + captured" where
  "stderr_of (TimeoutExpired t err) = Inr err"
| "stderr_of (CalledProcessError status err) = Inr err"
| "stderr_of (OSError msg) = Inl (AttributeError ''stderr'')"

definition hex_digit :: "nat \<Rightarrow> char" where
  "hex_digit d = ''0123456789abcdef'' ! d"

definition backslash :: char where
  "backslash = CHR 0x5C"

text \<open>\<open>repr\<close> of a bytes object: in single quotes, or in double quotes when the bytes
  hold a single quote and no double quote; the quote and the backslash are escaped,
  tab, newline and carriage return are written \<open>\t\<close>, \<open>\n\<close>, \<open>\r\<close>, and every other
  byte outside the printable ASCII range as \<open>\xNN\<close>.\<close>

definition escape_byte :: "char \<Rightarrow> char \<Rightarrow> string" where
  "escape_byte q c =
     (if c = q \<or> c = backslash then [backslash, c]
      else if c = CHR 0x09 then [backslash, CHR ''t'']
      else if c = CHR 0x0A then [backslash, CHR ''n'']
      else if c = CHR 0x0D then [backslash, CHR ''r'']
      else if (of_char c :: nat) < 32 \<or> 127 \<le> (of_char c :: nat)
        then [backslash, CHR ''x'', hex_digit (of_char c div 16), hex_digit (of_char c mod 16)]
      else [c])"

definition bytes_repr :: "string \<Rightarrow> string" where
  "bytes_repr b =
     (let q = (if CHR 0x27 \<in> set b \<and> CHR 0x22 \<notin> set b then CHR 0x22 else CHR 0x27)
      in ''b'' @ [q] @ concat (map (escape_byte q) b) @ [q])"

text \<open>\<open>f"{e.stderr}"\<close> and the truth value of \<open>e.stderr\<close>.\<close>

definition format_captured :: "captured \<Rightarrow> string" where
  "format_captured x =
     (case x of NoOutput \<Rightarrow> ''None'' | Bytes b \<Rightarrow> bytes_repr b | Text s \<Rightarrow> s)"

definition truthy :: "captured \<Rightarrow> bool" where
  "truthy x = (case x of NoOutput \<Rightarrow> False | Bytes b \<Rightarrow> b \<noteq> [] | Text s \<Rightarrow> s \<noteq> [])"

text \<open>A configuration value inside an f-string: a string stands for itself; \<open>fmt\<close> is
  the interpreter's formatting of the other values.\<close>

definition format_value :: "(json \<Rightarrow> string) \<Rightarrow> json \<Rightarrow> string" where
  "format_value fmt v = (case v of JString s \<Rightarrow> s | _ \<Rightarrow> fmt v)"

definition error_message :: "string \<Rightarrow> subprocess_error \<Rightarrow> string" where
  "error_message warning e =
     warning @ '' There was an error trying to execute that command:'' @ newline
       @ ''```'' @ newline @ exception_str e @ newline @ ''```''"

definition output_message :: "string \<Rightarrow> string" where
  "output_message out = ''Command output:'' @ newline @ ''```'' @ newline @ out @ newline @ ''```''"

text \<open>The \<open>except\<close> branch, lines 152 to 164.\<close>

definition git_pull_failed ::
  "json \<Rightarrow> environment \<Rightarrow> (json \<Rightarrow> string) \<Rightarrow> bool \<Rightarrow> subprocess_error \<Rightarrow> bot_state
     \<Rightarrow> bot_state \<times> (error + unit)" where
  "git_pull_failed doc env fmt trace_defined e st =
     (let st1 = log_message INFO (''Command error! `'' @ exception_str e @ ''`'') st;
          r = JSONGetter_getattr doc env Emoji ''warning'';
          st2 = st1\<lparr>logged := logged st1 @ fst r\<rparr>
      in case snd r of
           Inl err \<Rightarrow> (st2, Inl err)
         | Inr warning \<Rightarrow>
             let st3 = ctx_send (error_message (format_value fmt warning) e) st2 in
             if \<not> trace_defined then (st3, Inl (AttributeError ''trace''))
             else
             (case stderr_of e of
                Inl err \<Rightarrow> (st3, Inl err)
              | Inr err \<Rightarrow>
                  let st4 = log_message TRACE (''Output: '' @ format_captured err) st3 in
                  if truthy err
                  then (ctx_send (output_message (format_captured err)) st4, Inr ())
                  else (st4, Inr ())))"

text \<open>The \<open>else\<close> branch, lines 166 to 169.\<close>

definition git_pull_succeeded ::
  "json \<Rightarrow> environment \<Rightarrow> (json \<Rightarrow> string) \<Rightarrow> string \<Rightarrow> bot_state \<Rightarrow> bot_state \<times> (error + unit)" where
  "git_pull_succeeded doc env fmt out st =
     (let r = JSONGetter_getattr doc env Emoji ''green_check'';
          st1 = st\<lparr>logged := logged st @ fst r\<rparr>
      in case snd r of
           Inl err \<Rightarrow> (st1, Inl err)
         | Inr check \<Rightarrow>
             let st2 = ctx_send (format_value fmt check @ '' Command executed successfully.'') st1 in
             if out \<noteq> [] then (ctx_send (output_message out) st2, Inr ()) else (st2, Inr ()))"

text \<open>\<open>git_pull\<close> (lines 140 to 169), invoked by \<open>author\<close> while the external command
  behaves as \<open>cmd\<close>.\<close>

definition git_pull ::
  "json \<Rightarrow> environment \<Rightarrow> (json \<Rightarrow> string) \<Rightarrow> bool \<Rightarrow> string \<Rightarrow> external_command \<Rightarrow> bot_state
     \<Rightarrow> bot_state \<times> (error + unit)" where
  "git_pull doc env fmt trace_defined author cmd st =
     (let st1 = log_message INFO (author @ '' ran a git pull'') st in
      case subprocess_run 60 cmd of
        Inl e \<Rightarrow> git_pull_failed doc env fmt trace_defined e st1
      | Inr out \<Rightarrow> git_pull_succeeded doc env fmt out st1)"

section \<open>Example data\<close>

text \<open>The document \<open>{"bot": {"prefix": "!", "bot_token": "!ENV"}}\<close> and the environment
  \<open>BOT_TOKEN=abc123\<close>.\<close>

definition scenario_doc :: json where
  "scenario_doc =
     JObject [(''bot'', JObject [(''prefix'', JString ''!''), (''bot_token'', JString ''!ENV'')])]"

definition scenario_env :: environment where
  "scenario_env = [''BOT_TOKEN'' \<mapsto> ''abc123'']"

text \<open>The document \<open>{"bot": {"Token": "!ENV"}}\<close> and the environment \<open>TOKEN=abc123\<close>.\<close>

definition mixed_case_doc :: json where
  "mixed_case_doc = JObject [(''bot'', JObject [(''Token'', JString ''!ENV'')])]"

definition mixed_case_env :: environment where
  "mixed_case_env = [''TOKEN'' \<mapsto> ''abc123'']"

text \<open>Documents with a missing key, with a section that is no dictionary, and with a
  marker stored under the key \<open>123\<close>.\<close>

definition two_sections_doc :: json where
  "two_sections_doc = JObject [(''bot'', JObject []), (''guild'', JObject [])]"

definition string_section_doc :: json where
  "string_section_doc = JObject [(''bot'', JString ''x'')]"

definition marker_doc :: json where
  "marker_doc = JObject [(''bot'', JObject [(''123'', JString ''!ENV'')])]"

definition empty_section_doc :: json where
  "empty_section_doc = JObject [(''bot'', JObject [])]"

text \<open>
  An override document that has every key the import of the module reads but no
  \<open>bot.prefix\<close>, a default document that has that key too, and a working directory
  that holds the override file.
\<close>

definition guild_section :: json where
  "guild_section =
     JObject [(''staff_roles'', JObject [(''admin_role'', JInt 1), (''mod_role'', JInt 2),
                                        (''bot_team_role'', JInt 3)]),
              (''class_roles'', JObject [(''freshmen'', JInt 4), (''sophomores'', JInt 5),
                                        (''juniors'', JInt 6), (''seniors'', JInt 7),
                                        (''alumni'', JInt 8)])]"

definition override_doc :: json where
  "override_doc =
     JObject [(''bot'', JObject [(''bot_token'', JString ''t'')]), (''guild'', guild_section)]"

definition default_doc :: json where
  "default_doc =
     JObject [(''bot'', JObject [(''prefix'', JString ''!''), (''bot_token'', JString ''d'')]),
              (''guild'', guild_section)]"

definition override_fs :: filesystem where
  "override_fs = [''config.json'' \<mapsto> RegularFile (Some override_doc)]"

definition default_file :: fs_entry where
  "default_file = RegularFile (Some default_doc)"

text \<open>
  The extension directory of the repository: \<open>status.py\<close> imports the name \<open>Roles\<close>
  from \<open>roycemorebot.constants\<close>, which does not define it, so importing the module
  raises. \<open>roles.py\<close> stands for a further extension that loads.
\<close>

definition exts_modules :: modules where
  "exts_modules = [''roycemorebot.exts.status'' \<mapsto> ImportRaises,
                   ''roycemorebot.exts.roles'' \<mapsto> SetupAdds [''Roles'']]"

definition debug_env :: environment where
  "debug_env = [''DEBUG'' \<mapsto> ''1'', ''BOT_TOKEN'' \<mapsto> ''abc123'']"

text \<open>Documents without and with the key \<open>style.emoji.warning\<close>.\<close>

text \<open>Standard error captured before the command is cut off.\<close>

definition partial_stderr :: string where
  "partial_stderr = ''partial'' @ newline"

definition no_warning_doc :: json where
  "no_warning_doc = JObject [(''style'', JObject [(''emoji'', JObject [(''ok'', JString '':ok:'')])])]"

definition style_doc :: json where
  "style_doc = JObject [(''style'', JObject [(''emoji'', JObject [(''warning'', JString '':warning:'')])])]"

section \<open>Properties of configuration resolution\<close>

lemma lower_char_idem: "lower_char (lower_char c) = lower_char c"
  by (simp add: lower_char_def ascii_lowercase_def ascii_uppercase_def)

lemma lower_idem: "lower (lower s) = lower s"
  by (simp add: lower_def lower_char_idem)

lemma upper_bot_token: "upper ''bot_token'' = ''BOT_TOKEN''"
  by (simp add: upper_def upper_char_def ascii_lowercase_def ascii_uppercase_def)

lemma lower_bot_token: "lower ''bot_token'' = ''bot_token''"
  by (simp add: lower_def lower_char_def ascii_lowercase_def ascii_uppercase_def)

lemma lower_prefix: "lower ''prefix'' = ''prefix''"
  by (simp add: lower_def lower_char_def ascii_lowercase_def ascii_uppercase_def)

text \<open>The \<open>try\<close> body reads the stored value at the class's path and then tests it.\<close>

lemma try_body_path_value:
  assumes "path_value doc (config_path cls name) = Some item"
  shows "try_body doc env cls name = item_or_environ env name item"
proof (cases "cls_subsection cls")
  case None
  with assms obtain kvs s where doc: "doc = JObject kvs" and s: "map_of kvs (cls_section cls) = Some s"
    and rest: "path_value s [name] = Some item"
    by (cases doc) (auto simp: config_path_def split: option.splits)
  from rest obtain kvs' where "s = JObject kvs'" "map_of kvs' name = Some item"
    by (cases s) (auto split: option.splits)
  with None doc s show ?thesis
    by (simp add: try_body_def and_then_def)
next
  case (Some sub)
  with assms obtain kvs s where doc: "doc = JObject kvs" and s: "map_of kvs (cls_section cls) = Some s"
    and rest: "path_value s [sub, name] = Some item"
    by (cases doc) (auto simp: config_path_def split: option.splits)
  from rest obtain kvs' ss where s': "s = JObject kvs'" "map_of kvs' sub = Some ss"
    and rest': "path_value ss [name] = Some item"
    by (cases s) (auto split: option.splits)
  from rest' obtain kvs'' where "ss = JObject kvs''" "map_of kvs'' name = Some item"
    by (cases ss) (auto split: option.splits)
  with Some doc s s' show ?thesis
    by (simp add: try_body_def and_then_def)
qed

text \<open>
  C1 (amended). When the value stored at the class's path under the lower-cased name
  is the marker \<open>!ENV\<close> and the environment variable named by the upper-cased name
  is set, \<open>__getattr__\<close> returns the variable's value and logs nothing.
\<close>

theorem getattr_env_override:
  assumes "path_value doc (config_path cls (lower name)) = Some (JString ''!ENV'')"
    and "env (upper (lower name)) = Some v"
  shows "JSONGetter_getattr doc env cls name = ([], Inr (JString v))"
  using assms
  by (simp add: JSONGetter_getattr_def try_body_path_value item_or_environ_def environ_def)

theorem getattr_env_override_witness:
  "path_value scenario_doc (config_path BotConsts (lower ''bot_token'')) = Some (JString ''!ENV'')
   \<and> scenario_env (upper (lower ''bot_token'')) = Some ''abc123''
   \<and> JSONGetter_getattr scenario_doc scenario_env BotConsts ''bot_token''
       = ([], Inr (JString ''abc123''))"
proof -
  have p: "path_value scenario_doc (config_path BotConsts (lower ''bot_token'')) = Some (JString ''!ENV'')"
    by (simp add: lower_bot_token config_path_def BotConsts_def scenario_doc_def)
  have e: "scenario_env (upper (lower ''bot_token'')) = Some ''abc123''"
    by (simp add: lower_bot_token upper_bot_token scenario_env_def)
  from getattr_env_override [of scenario_doc BotConsts "''bot_token''" scenario_env "''abc123''"] p e
  show ?thesis by simp
qed

text \<open>
  C1 as stated fails for a key that the document stores with an upper-case letter:
  the name is lower-cased before the lookup, so the key is not found although its
  stored value is the marker and its variable is set.
\<close>

theorem getattr_env_override_counterexample:
  "path_value mixed_case_doc (config_path BotConsts ''Token'') = Some (JString ''!ENV'')
   \<and> mixed_case_env (upper ''Token'') = Some ''abc123''
   \<and> JSONGetter_getattr mixed_case_doc mixed_case_env BotConsts ''Token''
       = ([(CRITICAL, ''Tried accessing configuration variable at `bot.token`, but it could not be found.'')],
          Inl (KeyError ''token''))"
proof -
  have l: "lower ''Token'' = ''token''"
    by (simp add: lower_def lower_char_def ascii_lowercase_def ascii_uppercase_def)
  have u: "upper ''Token'' = ''TOKEN''"
    by (simp add: upper_def upper_char_def ascii_lowercase_def ascii_uppercase_def)
  show ?thesis
    by (simp add: l u mixed_case_doc_def mixed_case_env_def config_path_def BotConsts_def
        JSONGetter_getattr_def try_body_def and_then_def Let_def not_found_message_def
        dotted_path_def)
qed

lemma try_body_missing_key:
  assumes "missing_key doc (config_path cls name) = Some k"
  shows "try_body doc env cls name = Inl (KeyError k)"
proof -
  obtain kvs where doc: "doc = JObject kvs"
    using assms by (cases doc) (auto simp: config_path_def split: option.splits)
  show ?thesis
  proof (cases "cls_subsection cls")
    case None
    show ?thesis
    proof (cases "map_of kvs (cls_section cls)")
      case N: None
      with assms doc None show ?thesis
        by (simp add: try_body_def and_then_def config_path_def)
    next
      case (Some s)
      with assms doc None have "missing_key s [name] = Some k"
        by (simp add: config_path_def)
      then obtain kvs' where "s = JObject kvs'" "map_of kvs' name = None" "k = name"
        by (cases s) (auto split: option.splits)
      with doc None Some show ?thesis
        by (simp add: try_body_def and_then_def)
    qed
  next
    case (Some sub)
    show ?thesis
    proof (cases "map_of kvs (cls_section cls)")
      case None
      with assms doc Some show ?thesis
        by (simp add: try_body_def and_then_def config_path_def)
    next
      case S: (Some s)
      with assms doc Some have m: "missing_key s [sub, name] = Some k"
        by (simp add: config_path_def)
      then obtain kvs' where s: "s = JObject kvs'"
        by (cases s) auto
      show ?thesis
      proof (cases "map_of kvs' sub")
        case None
        with m s doc Some S show ?thesis
          by (simp add: try_body_def and_then_def)
      next
        case SS: (Some ss)
        with m s have "missing_key ss [name] = Some k" by simp
        then obtain kvs'' where "ss = JObject kvs''" "map_of kvs'' name = None" "k = name"
          by (cases ss) (auto split: option.splits)
        with s doc Some S SS show ?thesis
          by (simp add: try_body_def and_then_def)
      qed
    qed
  qed
qed

text \<open>
  C2 (amended). When a component of the class's path is not a key of the dictionary
  reached so far (the section in the document, the subsection in the section, or the
  lower-cased key), \<open>__getattr__\<close> raises the \<open>KeyError\<close> of the failed lookup, which
  carries that component alone, and logs at level critical a message that names the
  full dotted path.
\<close>

theorem getattr_missing_key:
  assumes "missing_key doc (config_path cls (lower name)) = Some k"
  shows "JSONGetter_getattr doc env cls name =
           ([(CRITICAL, not_found_message (dotted_path cls (lower name)))], Inl (KeyError k))"
  using assms by (simp add: JSONGetter_getattr_def try_body_missing_key)

theorem getattr_missing_key_witness:
  "missing_key two_sections_doc (config_path StaffRoles (lower ''Admin_Role'')) = Some ''staff_roles''
   \<and> JSONGetter_getattr two_sections_doc Map.empty StaffRoles ''Admin_Role'' =
       ([(CRITICAL, ''Tried accessing configuration variable at `guild.staff_roles.admin_role`, but it could not be found.'')],
        Inl (KeyError ''staff_roles''))"
proof -
  have l: "lower ''Admin_Role'' = ''admin_role''"
    by (simp add: lower_def lower_char_def ascii_lowercase_def ascii_uppercase_def)
  have m: "missing_key two_sections_doc (config_path StaffRoles (lower ''Admin_Role'')) = Some ''staff_roles''"
    by (simp add: l two_sections_doc_def config_path_def StaffRoles_def)
  from getattr_missing_key [of two_sections_doc StaffRoles "''Admin_Role''" "''staff_roles''" Map.empty] m
  show ?thesis by (simp add: l not_found_message_def dotted_path_def StaffRoles_def)
qed

text \<open>
  C2 as stated fails: two different absent paths give the same error, which
  carries the key and not the dotted path; and an absent path that runs into a value
  that is not a dictionary gives a \<open>TypeError\<close>.
\<close>

theorem missing_key_error_counterexample:
  "path_value two_sections_doc (config_path BotConsts (lower ''prefix'')) = None
   \<and> path_value two_sections_doc (config_path Guild (lower ''prefix'')) = None
   \<and> dotted_path BotConsts (lower ''prefix'') = ''bot.prefix''
   \<and> dotted_path Guild (lower ''prefix'') = ''guild.prefix''
   \<and> snd (JSONGetter_getattr two_sections_doc Map.empty BotConsts ''prefix'') = Inl (KeyError ''prefix'')
   \<and> snd (JSONGetter_getattr two_sections_doc Map.empty Guild ''prefix'') = Inl (KeyError ''prefix'')
   \<and> path_value string_section_doc (config_path BotConsts (lower ''prefix'')) = None
   \<and> JSONGetter_getattr string_section_doc Map.empty BotConsts ''prefix'' = ([], Inl TypeError)"
  by (simp add: lower_prefix two_sections_doc_def string_section_doc_def config_path_def
      dotted_path_def BotConsts_def Guild_def JSONGetter_getattr_def try_body_def and_then_def Let_def)

lemma lower_123: "lower ''123'' = ''123''"
  by (simp add: lower_def lower_char_def ascii_lowercase_def ascii_uppercase_def)

lemma upper_123: "upper ''123'' = ''123''"
  by (simp add: upper_def upper_char_def ascii_lowercase_def ascii_uppercase_def)

text \<open>
  C3 (amended). When the stored value is the marker and the environment variable named
  by the upper-cased key is absent, \<open>__getattr__\<close> raises the \<open>KeyError\<close> of the
  environment lookup, which carries the variable's name, and logs the same critical
  message with the dotted path as for a key missing from the document.
\<close>

theorem getattr_env_missing:
  assumes "path_value doc (config_path cls (lower name)) = Some (JString ''!ENV'')"
    and "env (upper (lower name)) = None"
  shows "JSONGetter_getattr doc env cls name =
           ([(CRITICAL, not_found_message (dotted_path cls (lower name)))],
            Inl (KeyError (upper (lower name))))"
  using assms
  by (simp add: JSONGetter_getattr_def try_body_path_value item_or_environ_def environ_def Let_def)

theorem getattr_env_missing_witness:
  "path_value scenario_doc (config_path BotConsts (lower ''bot_token'')) = Some (JString ''!ENV'')
   \<and> Map.empty (upper (lower ''bot_token'')) = (None :: string option)
   \<and> JSONGetter_getattr scenario_doc Map.empty BotConsts ''bot_token'' =
       ([(CRITICAL, ''Tried accessing configuration variable at `bot.bot_token`, but it could not be found.'')],
        Inl (KeyError ''BOT_TOKEN''))"
proof -
  have p: "path_value scenario_doc (config_path BotConsts (lower ''bot_token'')) = Some (JString ''!ENV'')"
    by (simp add: lower_bot_token config_path_def BotConsts_def scenario_doc_def)
  from getattr_env_missing [of scenario_doc BotConsts "''bot_token''" Map.empty] p
  show ?thesis
    by (simp add: lower_bot_token upper_bot_token not_found_message_def dotted_path_def BotConsts_def)
qed

text \<open>
  C3 as stated fails: a marker whose variable is absent and a key absent from
  the document can give the very same error and log record.
\<close>

theorem env_failure_distinct_counterexample:
  "path_value marker_doc (config_path BotConsts (lower ''123'')) = Some (JString ''!ENV'')
   \<and> Map.empty (upper (lower ''123'')) = (None :: string option)
   \<and> path_value empty_section_doc (config_path BotConsts (lower ''123'')) = None
   \<and> JSONGetter_getattr marker_doc Map.empty BotConsts ''123''
       = JSONGetter_getattr empty_section_doc Map.empty BotConsts ''123''"
  by (simp add: lower_123 upper_123 marker_doc_def empty_section_doc_def config_path_def
      BotConsts_def JSONGetter_getattr_def try_body_def and_then_def item_or_environ_def
      environ_def Let_def)

lemma module_statements_document:
  "snd (module_statements doc env) = Inr m \<Longrightarrow> CONFIG_JSON m = doc"
  by (auto simp: module_statements_def Let_def split: sum.splits)

lemma load_config_override:
  assumes "fs ''config.json'' \<noteq> None"
  shows "load_config (fs(''config-default.json'' := x))
           = ([(INFO, ''Found `config.json`, loading constants from it.'')],
              open_and_load fs ''config.json'')"
  using assms by (simp add: load_config_def open_and_load_def)

lemma resolve_from_files_document:
  assumes "snd (load_config fs) = Inr doc"
  shows "resolve_from_files fs env cls name =
           (case snd (module_statements doc env) of
              Inl e \<Rightarrow> Inl e
            | Inr m \<Rightarrow> snd (JSONGetter_getattr doc env cls name))"
proof (cases "snd (module_statements doc env)")
  case (Inl e)
  with assms show ?thesis
    by (simp add: resolve_from_files_def import_constants_def Let_def)
next
  case (Inr m)
  then have "CONFIG_JSON m = doc" by (rule module_statements_document)
  with assms Inr show ?thesis
    by (simp add: resolve_from_files_def import_constants_def Let_def)
qed

lemma module_statements_override:
  "module_statements override_doc debug_env =
     ([], Inr \<lparr>CONFIG_JSON = override_doc, debug_mode = True,
               BOT_ADMINS = [JInt 3, JInt 1], MOD_ROLES = [JInt 2, JInt 1],
               CLASS_ROLES = [JInt 4, JInt 5, JInt 6, JInt 7, JInt 8]\<rparr>)"
  by (simp add: module_statements_def DEBUG_MODE_def environ_def debug_env_def Let_def
      JSONGetter_getattr_def try_body_def and_then_def item_or_environ_def
      StaffRoles_def ClassRoles_def override_doc_def guild_section_def
      lower_def lower_char_def ascii_lowercase_def ascii_uppercase_def)

text \<open>
  C4. When \<open>config.json\<close> exists it alone is opened, whatever \<open>config-default.json\<close>
  holds and whether or not it exists: the import and every resolution are the same for
  every default file, and when the override file parses to a document, that document
  is the one loaded and every resolution is made against it.
\<close>

theorem override_replaces_default:
  assumes "fs ''config.json'' \<noteq> None"
  shows "load_config (fs(''config-default.json'' := x))
           = ([(INFO, ''Found `config.json`, loading constants from it.'')],
              open_and_load fs ''config.json'')
         \<and> import_constants (fs(''config-default.json'' := x)) env = import_constants fs env
         \<and> resolve_from_files (fs(''config-default.json'' := x)) env cls name
             = resolve_from_files fs env cls name
         \<and> (\<forall>doc. fs ''config.json'' = Some (RegularFile (Some doc)) \<longrightarrow>
               snd (load_config (fs(''config-default.json'' := x))) = Inr doc
               \<and> resolve_from_files (fs(''config-default.json'' := x)) env cls name
                   = (case snd (module_statements doc env) of
                        Inl e \<Rightarrow> Inl e
                      | Inr m \<Rightarrow> snd (JSONGetter_getattr doc env cls name)))"
proof -
  have a: "load_config (fs(''config-default.json'' := x))
           = ([(INFO, ''Found `config.json`, loading constants from it.'')],
              open_and_load fs ''config.json'')"
    using assms by (rule load_config_override)
  have "load_config fs = ([(INFO, ''Found `config.json`, loading constants from it.'')],
              open_and_load fs ''config.json'')"
    using assms by (simp add: load_config_def)
  with a have same: "load_config (fs(''config-default.json'' := x)) = load_config fs"
    by simp
  then have b: "import_constants (fs(''config-default.json'' := x)) env = import_constants fs env"
    by (simp add: import_constants_def)
  then have c: "resolve_from_files (fs(''config-default.json'' := x)) env cls name
             = resolve_from_files fs env cls name"
    by (simp add: resolve_from_files_def)
  have d: "snd (load_config (fs(''config-default.json'' := x))) = Inr doc
           \<and> resolve_from_files (fs(''config-default.json'' := x)) env cls name
               = (case snd (module_statements doc env) of
                    Inl e \<Rightarrow> Inl e
                  | Inr m \<Rightarrow> snd (JSONGetter_getattr doc env cls name))"
    if "fs ''config.json'' = Some (RegularFile (Some doc))" for doc
  proof -
    from that a have "snd (load_config (fs(''config-default.json'' := x))) = Inr doc"
      by (simp add: open_and_load_def)
    then show ?thesis by (simp add: resolve_from_files_document)
  qed
  from a b c d show ?thesis by blast
qed

theorem override_replaces_default_witness:
  "override_fs ''config.json'' \<noteq> None
   \<and> override_fs ''config.json'' = Some (RegularFile (Some override_doc))
   \<and> path_value default_doc (config_path BotConsts ''prefix'') = Some (JString ''!'')
   \<and> snd (load_config (override_fs(''config-default.json'' := Some default_file))) = Inr override_doc
   \<and> snd (import_constants (override_fs(''config-default.json'' := Some default_file)) debug_env)
       = Inr \<lparr>CONFIG_JSON = override_doc, debug_mode = True,
               BOT_ADMINS = [JInt 3, JInt 1], MOD_ROLES = [JInt 2, JInt 1],
               CLASS_ROLES = [JInt 4, JInt 5, JInt 6, JInt 7, JInt 8]\<rparr>
   \<and> resolve_from_files (override_fs(''config-default.json'' := Some default_file)) debug_env BotConsts ''prefix''
       = Inl (KeyError ''prefix'')
   \<and> resolve_from_files (override_fs(''config-default.json'' := Some default_file)) debug_env BotConsts ''bot_token''
       = Inr (JString ''t'')"
proof -
  have e: "override_fs ''config.json'' \<noteq> None"
    by (simp add: override_fs_def)
  have f: "override_fs ''config.json'' = Some (RegularFile (Some override_doc))"
    by (simp add: override_fs_def)
  have p: "path_value default_doc (config_path BotConsts ''prefix'') = Some (JString ''!'')"
    by (simp add: default_doc_def config_path_def BotConsts_def)
  have i: "snd (import_constants override_fs debug_env)
       = Inr \<lparr>CONFIG_JSON = override_doc, debug_mode = True,
               BOT_ADMINS = [JInt 3, JInt 1], MOD_ROLES = [JInt 2, JInt 1],
               CLASS_ROLES = [JInt 4, JInt 5, JInt 6, JInt 7, JInt 8]\<rparr>"
    by (simp add: import_constants_def load_config_def open_and_load_def override_fs_def
        module_statements_override Let_def)
  have 1: "snd (JSONGetter_getattr override_doc debug_env BotConsts ''prefix'') = Inl (KeyError ''prefix'')"
    by (simp add: JSONGetter_getattr_def try_body_def and_then_def BotConsts_def lower_prefix
        Let_def override_doc_def)
  have 2: "snd (JSONGetter_getattr override_doc debug_env BotConsts ''bot_token'') = Inr (JString ''t'')"
    by (simp add: JSONGetter_getattr_def try_body_def and_then_def BotConsts_def lower_bot_token
        Let_def override_doc_def item_or_environ_def)
  from e have t1: "load_config (override_fs(''config-default.json'' := Some default_file))
           = ([(INFO, ''Found `config.json`, loading constants from it.'')],
              open_and_load override_fs ''config.json'')
         \<and> import_constants (override_fs(''config-default.json'' := Some default_file)) debug_env
             = import_constants override_fs debug_env
         \<and> resolve_from_files (override_fs(''config-default.json'' := Some default_file)) debug_env BotConsts ''prefix''
             = resolve_from_files override_fs debug_env BotConsts ''prefix''
         \<and> (\<forall>doc. override_fs ''config.json'' = Some (RegularFile (Some doc)) \<longrightarrow>
               snd (load_config (override_fs(''config-default.json'' := Some default_file))) = Inr doc
               \<and> resolve_from_files (override_fs(''config-default.json'' := Some default_file)) debug_env BotConsts ''prefix''
                   = (case snd (module_statements doc debug_env) of
                        Inl e \<Rightarrow> Inl e
                      | Inr m \<Rightarrow> snd (JSONGetter_getattr doc debug_env BotConsts ''prefix'')))"
    by (rule override_replaces_default [of override_fs "Some default_file" debug_env BotConsts "''prefix''"])
  from e have t2: "\<forall>doc. override_fs ''config.json'' = Some (RegularFile (Some doc)) \<longrightarrow>
               snd (load_config (override_fs(''config-default.json'' := Some default_file))) = Inr doc
               \<and> resolve_from_files (override_fs(''config-default.json'' := Some default_file)) debug_env BotConsts ''bot_token''
                   = (case snd (module_statements doc debug_env) of
                        Inl e \<Rightarrow> Inl e
                      | Inr m \<Rightarrow> snd (JSONGetter_getattr doc debug_env BotConsts ''bot_token''))"
    using override_replaces_default [of override_fs "Some default_file" debug_env BotConsts "''bot_token''"]
    by blast
  from t1 f have l: "snd (load_config (override_fs(''config-default.json'' := Some default_file))) = Inr override_doc"
    by blast
  from t1 i have i': "snd (import_constants (override_fs(''config-default.json'' := Some default_file)) debug_env)
       = Inr \<lparr>CONFIG_JSON = override_doc, debug_mode = True,
               BOT_ADMINS = [JInt 3, JInt 1], MOD_ROLES = [JInt 2, JInt 1],
               CLASS_ROLES = [JInt 4, JInt 5, JInt 6, JInt 7, JInt 8]\<rparr>"
    by metis
  from t1 f have "resolve_from_files (override_fs(''config-default.json'' := Some default_file)) debug_env BotConsts ''prefix''
       = (case snd (module_statements override_doc debug_env) of
            Inl e \<Rightarrow> Inl e
          | Inr m \<Rightarrow> snd (JSONGetter_getattr override_doc debug_env BotConsts ''prefix''))"
    by blast
  with 1 have r1: "resolve_from_files (override_fs(''config-default.json'' := Some default_file)) debug_env BotConsts ''prefix''
       = Inl (KeyError ''prefix'')"
    by (simp add: module_statements_override)
  from t2 f have "resolve_from_files (override_fs(''config-default.json'' := Some default_file)) debug_env BotConsts ''bot_token''
       = (case snd (module_statements override_doc debug_env) of
            Inl e \<Rightarrow> Inl e
          | Inr m \<Rightarrow> snd (JSONGetter_getattr override_doc debug_env BotConsts ''bot_token''))"
    by blast
  with 2 have r2: "resolve_from_files (override_fs(''config-default.json'' := Some default_file)) debug_env BotConsts ''bot_token''
       = Inr (JString ''t'')"
    by (simp add: module_statements_override)
  from e f p l i' r1 r2 show ?thesis by blast
qed

text \<open>
  C7. With \<open>DEBUG\<close> absent from the environment the evaluation of \<open>DEBUG_MODE\<close>
  raises \<open>KeyError\<close>; the flag is not \<open>False\<close>.
\<close>

theorem DEBUG_MODE_unset: "DEBUG_MODE Map.empty = Inl (KeyError ''DEBUG'')"
  by (simp add: DEBUG_MODE_def environ_def)

lemma DEBUG_MODE_cases:
  "DEBUG_MODE env = (case env ''DEBUG'' of None \<Rightarrow> Inl (KeyError ''DEBUG'') | Some v \<Rightarrow> Inr True)"
  by (simp add: DEBUG_MODE_def environ_def split: option.splits)

text \<open>
  C10 (amended). For a name that ordinary attribute lookup does not find, \<open>Cls.name\<close>
  and \<open>Cls[name]\<close> agree in value, error and log, and both resolve the lower-cased
  name.
\<close>

theorem attribute_equals_item:
  assumes "ordinary_lookup cls name = None"
  shows "attribute_access doc env cls name = item_access doc env cls name
         \<and> item_access doc env cls name = as_object (JSONGetter_getattr doc env cls (lower name))"
proof -
  have "JSONGetter_getattr doc env cls (lower name) = JSONGetter_getattr doc env cls name"
    by (simp add: JSONGetter_getattr_def lower_idem)
  with assms show ?thesis
    by (simp add: attribute_access_def item_access_def JSONGetter_getitem_def)
qed

theorem attribute_equals_item_witness:
  "ordinary_lookup BotConsts ''PREFIX'' = None
   \<and> attribute_access scenario_doc scenario_env BotConsts ''PREFIX'' = ([], Inr (Value (JString ''!'')))
   \<and> item_access scenario_doc scenario_env BotConsts ''PREFIX'' = ([], Inr (Value (JString ''!'')))"
proof -
  have o: "ordinary_lookup BotConsts ''PREFIX'' = None"
    by (simp add: ordinary_lookup_def BotConsts_def interpreter_attributes_def)
  have g: "as_object (JSONGetter_getattr scenario_doc scenario_env BotConsts ''prefix'')
             = ([], Inr (Value (JString ''!'')))"
    by (simp add: as_object_def JSONGetter_getattr_def lower_prefix try_body_def BotConsts_def
        scenario_doc_def and_then_def item_or_environ_def Let_def)
  have l: "lower ''PREFIX'' = ''prefix''"
    by (simp add: lower_def lower_char_def ascii_lowercase_def ascii_uppercase_def)
  from attribute_equals_item [OF o, of scenario_doc scenario_env] o g l
  show ?thesis by simp
qed

text \<open>
  C10 as stated fails for \<open>section\<close>: the attribute is the class's own, the item
  is looked up in the document.
\<close>

theorem attribute_equals_item_counterexample:
  "attribute_access scenario_doc scenario_env BotConsts ''section'' = ([], Inr (Value (JString ''bot'')))
   \<and> item_access scenario_doc scenario_env BotConsts ''section''
       = ([(CRITICAL, ''Tried accessing configuration variable at `bot.section`, but it could not be found.'')],
          Inl (KeyError ''section''))"
proof -
  have l: "lower ''section'' = ''section''"
    by (simp add: lower_def lower_char_def ascii_lowercase_def ascii_uppercase_def)
  show ?thesis
    by (simp add: attribute_access_def ordinary_lookup_def BotConsts_def item_access_def
        JSONGetter_getitem_def as_object_def JSONGetter_getattr_def l try_body_def
        scenario_doc_def and_then_def Let_def not_found_message_def dotted_path_def)
qed

section \<open>Properties of the bot\<close>

lemma load_cogs_append:
  "load_cogs mods (xs @ ys) st =
     (case load_cogs mods xs st of
        (st1, Inl e) \<Rightarrow> (st1, Inl e)
      | (st1, Inr u) \<Rightarrow> load_cogs mods ys st1)"
proof (induction xs arbitrary: st)
  case Nil
  show ?case by simp
next
  case (Cons f fs)
  show ?case
  proof (cases "is_extension_file f")
    case False
    with Cons show ?thesis by simp
  next
    case True
    obtain st1 r where l: "load_extension mods (extension_name f) st = (st1, r)"
      by (cases "load_extension mods (extension_name f) st")
    with True Cons show ?thesis by (cases r) simp_all
  qed
qed

lemma load_extension_failure_state:
  "load_extension mods name st = (st1, Inl e) \<Longrightarrow> st1 = st"
  by (auto simp: load_extension_def Let_def
      split: sum.splits if_splits option.splits module_behaviour.splits)

lemma is_extension_file_status: "is_extension_file ''status.py''"
  by (simp add: is_extension_file_def endswith_def startswith_def)

lemma extension_name_status: "extension_name ''status.py'' = ''roycemorebot.exts.status''"
  by (simp add: extension_name_def)

lemma is_extension_file_roles: "is_extension_file ''roles.py''"
  by (simp add: is_extension_file_def endswith_def startswith_def)

lemma extension_name_roles: "extension_name ''roles.py'' = ''roycemorebot.exts.roles''"
  by (simp add: extension_name_def)

text \<open>
  C5 (amended). The extensions are loaded in the order of the listing and nothing
  catches a failure: when the extensions before it load and one extension fails, the
  start fails with that extension's error in the state the earlier loads left; nothing
  is logged for the failure, no later extension is loaded and \<open>bot.run\<close> is not
  reached.
\<close>

theorem extension_failure_aborts_startup:
  assumes "load_cogs mods before st = (st1, Inr ())"
    and "is_extension_file file"
    and "snd (load_extension mods (extension_name file) st1) = Inl e"
  shows "main_script doc env mods (before @ file # after) dbg trace_defined st = (st1, Inl e)"
proof -
  obtain st2 where l: "load_extension mods (extension_name file) st1 = (st2, Inl e)"
    using assms(3) by (cases "load_extension mods (extension_name file) st1") simp
  then have "st2 = st1" by (rule load_extension_failure_state)
  with l assms(1,2) have "load_cogs mods (before @ file # after) st = (st1, Inl e)"
    by (simp add: load_cogs_append)
  then show ?thesis by (simp add: main_script_def)
qed

theorem extension_failure_aborts_startup_witness:
  "load_cogs exts_modules [''__init__.py''] initial_state = (initial_state, Inr ())
   \<and> is_extension_file ''status.py''
   \<and> snd (load_extension exts_modules (extension_name ''status.py'') initial_state)
       = Inl (ExtensionFailed ''roycemorebot.exts.status'')
   \<and> main_script scenario_doc debug_env exts_modules ([''__init__.py''] @ ''status.py'' # [''roles.py'']) True True initial_state
       = (initial_state, Inl (ExtensionFailed ''roycemorebot.exts.status''))"
proof -
  have 1: "load_cogs exts_modules [''__init__.py''] initial_state = (initial_state, Inr ())"
    by (simp add: is_extension_file_def endswith_def startswith_def)
  have 3: "snd (load_extension exts_modules (extension_name ''status.py'') initial_state)
       = Inl (ExtensionFailed ''roycemorebot.exts.status'')"
    by (simp add: extension_name_status load_extension_def resolve_name_def startswith_def
        initial_state_def exts_modules_def)
  from extension_failure_aborts_startup [OF 1 is_extension_file_status 3] 1 3 is_extension_file_status
  show ?thesis by simp
qed

text \<open>
  C5 as stated fails on the repository's own extension directory: the failure of
  \<open>status.py\<close> ends the start, although \<open>roles.py\<close> would load.
\<close>

theorem extension_failure_counterexample:
  "main_script scenario_doc debug_env exts_modules [''status.py'', ''roles.py''] True True initial_state
     = (initial_state, Inl (ExtensionFailed ''roycemorebot.exts.status''))
   \<and> logged initial_state = []
   \<and> extensions initial_state = []
   \<and> run_token initial_state = None
   \<and> snd (load_extension exts_modules (extension_name ''roles.py'') initial_state) = Inr ()"
  by (simp add: main_script_def is_extension_file_status is_extension_file_roles
      extension_name_status extension_name_roles load_extension_def resolve_name_def
      startswith_def initial_state_def exts_modules_def add_cog_def log_message_def)

text \<open>
  C6. When \<open>super().close()\<close> raises, \<open>Bot.close\<close> raises the same error at once and
  leaves the state as it was: \<open>Tortoise.close_connections()\<close> is not called.
\<close>

theorem Bot_close_platform_failure:
  "Bot_close (Some e) storage_failure st = (st, Inl e)"
  by (simp add: Bot_close_def)

lemma show_nat_60: "show_nat 60 = ''60''"
  by (simp add: digit_char_def)

lemma exception_str_timeout: "exception_str (TimeoutExpired 60 x) = timeout_text"
  by (simp add: timeout_text_def cmd_str_def quote_def digit_char_def)

lemma lower_warning: "lower ''warning'' = ''warning''"
  by (simp add: lower_def lower_char_def ascii_lowercase_def ascii_uppercase_def)

lemma bytes_repr_partial:
  "bytes_repr partial_stderr = ''b'' @ quote @ ''partial'' @ [backslash] @ ''n'' @ quote"
  by (simp add: partial_stderr_def bytes_repr_def escape_byte_def newline_def quote_def
      backslash_def Let_def)

text \<open>
  C8 (amended). \<open>git_pull\<close> runs the command with a timeout of 60 seconds. When the
  command runs longer and \<open>Emoji.warning\<close> resolves, the next message the operator
  receives is the warning emoji, the header shared by all command errors and the text
  of the timeout.
\<close>

theorem git_pull_timeout:
  assumes "duration > 60"
    and "snd (JSONGetter_getattr doc env Emoji ''warning'') = Inr w"
  shows "take (Suc (length (sent st)))
           (sent (fst (git_pull doc env fmt trace_defined author (Runs duration status out err) st)))
         = sent st
             @ [format_value fmt w @ '' There was an error trying to execute that command:''
                  @ newline @ ''```'' @ newline @ timeout_text @ newline @ ''```'']"
  using assms
  by (simp add: git_pull_def subprocess_run_def git_pull_failed_def Let_def error_message_def
      exception_str_timeout ctx_send_def log_message_def
      del: exception_str.simps)

theorem git_pull_timeout_witness:
  "(61::real) > 60
   \<and> snd (JSONGetter_getattr style_doc Map.empty Emoji ''warning'') = Inr (JString '':warning:'')
   \<and> take (Suc (length (sent initial_state)))
        (sent (fst (git_pull style_doc Map.empty (\<lambda>v. []) True ''operator''
                      (Runs 61 0 [] partial_stderr) initial_state)))
       = ['':warning: There was an error trying to execute that command:'' @ newline @ ''```''
            @ newline @ ''Command '['git', 'pull']' timed out after 60 seconds'' @ newline @ ''```'']
   \<and> sent (fst (git_pull style_doc Map.empty (\<lambda>v. []) True ''operator''
                   (Runs 61 0 [] partial_stderr) initial_state))
       = ['':warning: There was an error trying to execute that command:'' @ newline @ ''```''
            @ newline @ ''Command '['git', 'pull']' timed out after 60 seconds'' @ newline @ ''```'',
          ''Command output:'' @ newline @ ''```'' @ newline
            @ ''b'' @ quote @ ''partial'' @ [backslash] @ ''n'' @ quote @ newline @ ''```'']"
proof -
  have w: "snd (JSONGetter_getattr style_doc Map.empty Emoji ''warning'') = Inr (JString '':warning:'')"
    by (simp add: JSONGetter_getattr_def lower_warning try_body_def Emoji_def style_doc_def
        and_then_def item_or_environ_def Let_def)
  have d: "(61::real) > 60" by simp
  have n: "partial_stderr \<noteq> []" by (simp add: partial_stderr_def)
  have full: "sent (fst (git_pull style_doc Map.empty (\<lambda>v. []) True ''operator''
                   (Runs 61 0 [] partial_stderr) initial_state))
       = ['':warning: There was an error trying to execute that command:'' @ newline @ ''```''
            @ newline @ ''Command '['git', 'pull']' timed out after 60 seconds'' @ newline @ ''```'',
          ''Command output:'' @ newline @ ''```'' @ newline
            @ ''b'' @ quote @ ''partial'' @ [backslash] @ ''n'' @ quote @ newline @ ''```'']"
    using w n
    by (simp add: git_pull_def subprocess_run_def git_pull_failed_def Let_def error_message_def
        exception_str_timeout timeout_text_def ctx_send_def log_message_def truthy_def
        format_captured_def bytes_repr_partial output_message_def format_value_def
        initial_state_def
        del: exception_str.simps)
  from git_pull_timeout [of 61 style_doc Map.empty "JString '':warning:''" initial_state
         "\<lambda>v. []" True "''operator''" 0 "[]" partial_stderr] w d full
  show ?thesis
    by (simp add: format_value_def timeout_text_def initial_state_def)
qed

text \<open>
  C8 as stated fails when \<open>style.emoji.warning\<close> is not configured: the
  message is never built and nothing is sent.
\<close>

theorem git_pull_timeout_counterexample:
  "(61::real) > 60
   \<and> git_pull no_warning_doc Map.empty (\<lambda>v. []) True ''operator'' (Runs 61 0 [] []) initial_state
       = (initial_state\<lparr>logged :=
            [(INFO, ''operator ran a git pull''),
             (INFO, ''Command error! `Command '['git', 'pull']' timed out after 60 seconds`''),
             (CRITICAL, ''Tried accessing configuration variable at `style.emoji.warning`, but it could not be found.'')]\<rparr>,
          Inl (KeyError ''warning''))
   \<and> sent initial_state = []"
  by (simp add: git_pull_def subprocess_run_def git_pull_failed_def Let_def
      exception_str_timeout timeout_text_def log_message_def JSONGetter_getattr_def lower_warning
      try_body_def Emoji_def no_warning_doc_def and_then_def not_found_message_def
      dotted_path_def initial_state_def
      del: exception_str.simps)

lemma qualified_name_status: "qualified_name ''status'' = ''roycemorebot.exts.status''"
  by (simp add: qualified_name_def startswith_def)

text \<open>
  C9 (amended). For a name whose qualified name is not relative (it does not start
  with a dot) and is not among the loaded extensions, \<open>reload_extension\<close> raises
  \<open>ExtensionNotLoaded\<close> and changes nothing; the command catches it, answers that the
  extension could not be found and returns normally, with the extensions and cogs as
  before.
\<close>

theorem reload_not_loaded:
  assumes "qualified_name cog \<notin> set (extensions st)"
    and "\<not> startswith (qualified_name cog) ''.''"
  shows "reload_extension mods (qualified_name cog) st
           = (st, Inl (ExtensionNotLoaded (qualified_name cog)))
         \<and> reload mods cog st
           = (ctx_send (''Could not find the extension `'' @ cog @ ''`!'') st, Inr ())
         \<and> extensions (fst (reload mods cog st)) = extensions st
         \<and> cogs (fst (reload mods cog st)) = cogs st"
  using assms by (simp add: reload_def reload_extension_def resolve_name_def ctx_send_def)

theorem reload_not_loaded_witness:
  "qualified_name ''status'' \<notin> set (extensions initial_state)
   \<and> \<not> startswith (qualified_name ''status'') ''.''
   \<and> reload_extension exts_modules (qualified_name ''status'') initial_state
       = (initial_state, Inl (ExtensionNotLoaded ''roycemorebot.exts.status''))
   \<and> reload exts_modules ''status'' initial_state
       = (initial_state\<lparr>sent := [''Could not find the extension `status`!'']\<rparr>, Inr ())"
proof -
  have n: "qualified_name ''status'' \<notin> set (extensions initial_state)"
    by (simp add: initial_state_def)
  have r: "\<not> startswith (qualified_name ''status'') ''.''"
    by (simp add: qualified_name_status startswith_def)
  from reload_not_loaded [OF n r, of exts_modules] n r show ?thesis
    by (simp add: qualified_name_status ctx_send_def initial_state_def)
qed

text \<open>
  C9 as stated fails for the name \<open>.roycemorebot\<close>, which is not loaded: it holds
  \<open>roycemorebot\<close> and is passed on as it is, the framework cannot resolve the relative
  name and raises \<open>ExtensionNotFound\<close>, which the command does not catch; nothing is
  sent.
\<close>

theorem reload_not_loaded_counterexample:
  "qualified_name ''.roycemorebot'' = ''.roycemorebot''
   \<and> ''.roycemorebot'' \<notin> set (extensions initial_state)
   \<and> reload exts_modules ''.roycemorebot'' initial_state
       = (initial_state, Inl (ExtensionNotFound ''.roycemorebot''))
   \<and> sent initial_state = []"
proof -
  have q: "qualified_name ''.roycemorebot'' = ''.roycemorebot''"
    by (simp add: qualified_name_def startswith_def)
  show ?thesis
    by (simp add: q reload_def reload_extension_def resolve_name_def startswith_def
        initial_state_def)
qed

end
